theory Spec2Isabelle
  imports Main "HOL-Library.Sublist"
begin

section \<open>The mower snapshot\<close>

text \<open>
  The vacuum entity of \<^verbatim>\<open>vacuum.py\<close> reads one nested mapping per mower,
  \<^verbatim>\<open>mower_attributes\<close>, with the sub-objects \<^verbatim>\<open>mower\<close>, \<^verbatim>\<open>battery\<close> and
  \<^verbatim>\<open>planner\<close>. Each sub-object is a record here, with one field per key the file reads.
  The vendor's state, activity and restricted-reason values are Python strings and stay
  strings; time stamps and the battery percentage are Python integers.
  The key \<^verbatim>\<open>state\<close> of the \<^verbatim>\<open>mower\<close> object is the field \<open>mower_state\<close> and the key
  \<^verbatim>\<open>action\<close> of the \<^verbatim>\<open>override\<close> object is the field \<open>override_action\<close>, since the entity
  has a property \<^verbatim>\<open>state\<close> and the session a coroutine \<^verbatim>\<open>action\<close> of their own.
\<close>

record mower_obj =
  mower_state :: string
  activity :: string
  errorCode :: int
  errorCodeTimestamp :: int
  mode :: string

record battery_obj =
  batteryPercent :: int

record override_obj =
  override_action :: string

record planner_obj =
  nextStartTimestamp :: int
  restrictedReason :: string
  override :: override_obj

record mower_attributes =
  mower :: mower_obj
  battery :: battery_obj
  planner :: planner_obj

text \<open>
  The entity: its mower id and the snapshot that the session holds for it.
\<close>

record entity =
  mower_id :: string
  attributes :: mower_attributes

text \<open>
  Modelled from the spec: \<^verbatim>\<open>AutomowerEntity.get_mower_attributes\<close> lives in
  \<^verbatim>\<open>entity.py\<close>, which is not among the sources. By section 6 of the specification it
  yields the snapshot record \<^verbatim>\<open>session.data["data"][idx]\<close> of this entity's mower.
\<close>

definition get_mower_attributes :: "entity \<Rightarrow> mower_attributes" where
  "get_mower_attributes self = attributes self"

section \<open>The state of the mower\<close>

text \<open>
  The six state constants that \<^verbatim>\<open>vacuum.py\<close> imports from the host's vacuum component.
\<close>

datatype vacuum_state =
  STATE_CLEANING | STATE_DOCKED | STATE_ERROR | STATE_IDLE | STATE_PAUSED | STATE_RETURNING

text \<open>
  The property \<^verbatim>\<open>state\<close>: a cascade of \<^verbatim>\<open>if ... return\<close>. When no condition holds the
  Python function ends without a \<^verbatim>\<open>return\<close>, which yields \<^verbatim>\<open>None\<close>; that is the
  result \<open>None\<close> here.
\<close>

definition state :: "entity \<Rightarrow> vacuum_state option" where
  "state self =
    (let mower_attributes = get_mower_attributes self in
     if mower_state (mower mower_attributes) \<in> set [''PAUSED''] then Some STATE_PAUSED
     else if mower_state (mower mower_attributes) \<in> set [''WAIT_UPDATING'', ''WAIT_POWER_UP'']
       then Some STATE_IDLE
     else if mower_state (mower mower_attributes) = ''RESTRICTED''
         \<or> activity (mower mower_attributes) \<in> set [''PARKED_IN_CS'', ''CHARGING'']
       then Some STATE_DOCKED
     else if activity (mower mower_attributes) \<in> set [''MOWING'', ''LEAVING'']
       then Some STATE_CLEANING
     else if activity (mower mower_attributes) = ''GOING_HOME'' then Some STATE_RETURNING
     else if mower_state (mower mower_attributes) \<in> set
           [''FATAL_ERROR'', ''ERROR'', ''ERROR_AT_POWER_UP'', ''NOT_APPLICABLE'', ''UNKNOWN'',
            ''STOPPED'', ''OFF'']
         \<or> activity (mower mower_attributes) \<in> set
           [''STOPPED_IN_GARDEN'', ''UNKNOWN'', ''NOT_APPLICABLE'']
       then Some STATE_ERROR
     else None)"

text \<open>
  The property \<^verbatim>\<open>error\<close>. The table \<^verbatim>\<open>ERRORCODES\<close> is a dictionary of \<^verbatim>\<open>const.py\<close>,
  which is not among the sources, so it is a parameter: a map from error codes to messages.
  \<^verbatim>\<open>ERRORCODES.get(code)\<close> is the message, or \<^verbatim>\<open>None\<close> for a code the table lacks.
\<close>

definition error :: "(int \<rightharpoonup> string) \<Rightarrow> entity \<Rightarrow> string option" where
  "error ERRORCODES self =
    (if state self = Some STATE_ERROR then
       (let mower_attributes = get_mower_attributes self in
        ERRORCODES (errorCode (mower mower_attributes)))
     else Some '''')"

text \<open>The property \<^verbatim>\<open>battery_level\<close>.\<close>

definition battery_level :: "entity \<Rightarrow> int" where
  "battery_level self =
    max 0 (min 100 (batteryPercent (battery (get_mower_attributes self))))"

section \<open>Dates and the status text\<close>







definition digit_char :: "nat \<Rightarrow> char" where
  "digit_char n = ''0123456789'' ! n"







section \<open>JSON text\<close>

text \<open>
  \<^verbatim>\<open>json.dumps\<close> on the values the commands build: strings, integers, booleans, lists
  and dictionaries in the order of their keys, with the default separators. A string is
  escaped as \<^verbatim>\<open>json.dumps\<close> does with \<^verbatim>\<open>ensure_ascii\<close>; a \<open>char\<close> is one of the first 256
  code points.
\<close>

datatype json =
  JStr string | JInt int | JBool bool | JArr "json list" | JObj "(string \<times> json) list"

definition hex_digit :: "nat \<Rightarrow> char" where
  "hex_digit n = ''0123456789abcdef'' ! n"

definition escape_char :: "char \<Rightarrow> string" where
  "escape_char c =
    (let n = (of_char c :: nat) in
     if c = CHR 0x22 then [CHR 0x5C, CHR 0x22]
     else if c = CHR 0x5C then [CHR 0x5C, CHR 0x5C]
     else if n = 8 then [CHR 0x5C, CHR ''b'']
     else if n = 12 then [CHR 0x5C, CHR ''f'']
     else if n = 10 then [CHR 0x5C, CHR ''n'']
     else if n = 13 then [CHR 0x5C, CHR ''r'']
     else if n = 9 then [CHR 0x5C, CHR ''t'']
     else if 32 \<le> n \<and> n \<le> 126 then [c]
     else [CHR 0x5C, CHR ''u'', CHR ''0'', CHR ''0'', hex_digit (n div 16), hex_digit (n mod 16)])"

fun join :: "string \<Rightarrow> string list \<Rightarrow> string" where
  "join sep [] = []"
| "join sep [x] = x"
| "join sep (x # y # ys) = x @ sep @ join sep (y # ys)"

function str_nat :: "nat \<Rightarrow> string" where
  "str_nat n =
    (if n < 10 then [digit_char n] else str_nat (n div 10) @ [digit_char (n mod 10)])"
  by pat_completeness auto
termination
  by (relation "measure id") auto

declare str_nat.simps [simp del]

text \<open>The decimal text of a Python integer, as \<^verbatim>\<open>%i\<close> and \<^verbatim>\<open>json.dumps\<close> print it.\<close>

definition str_int :: "int \<Rightarrow> string" where
  "str_int i = (if i < 0 then ''-'' @ str_nat (nat (- i)) else str_nat (nat i))"

fun json_dumps :: "json \<Rightarrow> string" where
  "json_dumps (JStr s) = [CHR 0x22] @ concat (map escape_char s) @ [CHR 0x22]"
| "json_dumps (JInt i) = str_int i"
| "json_dumps (JBool b) = (if b then ''true'' else ''false'')"
| "json_dumps (JArr xs) = ''['' @ join '', '' (map json_dumps xs) @ '']''"
| "json_dumps (JObj kvs) =
     ''{'' @ join '', ''
        (map (\<lambda>(k, v). json_dumps (JStr k) @ '': '' @ json_dumps v) kvs) @ ''}''"

section \<open>Forwarding commands to the session\<close>

text \<open>
  The exceptions of the command methods: \<^verbatim>\<open>ClientResponseError\<close>, which the session's
  call raises when the request fails and the methods catch; \<^verbatim>\<open>ConditionErrorMessage\<close>
  with its two arguments, which the calendar command raises; and \<open>OtherException\<close> for
  whatever else the session's call may raise, which no method catches.
\<close>

datatype exn =
  ClientResponseError | ConditionErrorMessage string string | OtherException string

text \<open>
  A call \<^verbatim>\<open>session.action(mower_id, payload, command_type)\<close> is the triple of its
  arguments. The session is not part of this file: it is a parameter, the function that
  says how the call ends (\<open>None\<close>: it returns; \<open>Some e\<close>: it raises \<open>e\<close>) given the calls
  made before it. What the methods do to the world outside is kept in a record: the calls
  made to the session, in order, and the records written to the logger.
\<close>

type_synonym request = "string \<times> string \<times> string"

type_synonym session = "request list \<Rightarrow> request \<Rightarrow> exn option"

datatype log_level = DEBUG | ERROR

record world =
  requests :: "request list"
  logged :: "(log_level \<times> string) list"

definition session_action ::
  "session \<Rightarrow> string \<Rightarrow> string \<Rightarrow> string \<Rightarrow> world \<Rightarrow> exn option \<times> world" where
  "session_action session mid payload command_type w =
    (session (requests w) (mid, payload, command_type),
     w\<lparr>requests := requests w @ [(mid, payload, command_type)]\<rparr>)"

definition LOGGER_error :: "string \<Rightarrow> world \<Rightarrow> world" where
  "LOGGER_error msg w = w\<lparr>logged := logged w @ [(ERROR, msg)]\<rparr>"

definition LOGGER_debug :: "string \<Rightarrow> world \<Rightarrow> world" where
  "LOGGER_debug msg w = w\<lparr>logged := logged w @ [(DEBUG, msg)]\<rparr>"

text \<open>
  The block that every command method ends with,
  \<^verbatim>\<open>try: await self.session.action(...) except ClientResponseError: _LOGGER.error(...)\<close>:
  given how the call ended, the method returns (\<open>Inr ()\<close>), after logging when the call
  raised \<^verbatim>\<open>ClientResponseError\<close>, or lets any other exception through (\<open>Inl\<close>).
\<close>

definition except_ClientResponseError :: "exn option \<times> world \<Rightarrow> (exn + unit) \<times> world" where
  \<open>except_ClientResponseError r =
    (case r of
       (None, w) \<Rightarrow> (Inr (), w)
     | (Some ClientResponseError, w) \<Rightarrow>
         (Inr (), LOGGER_error ''Command couldn't be sent to the command que'' w)
     | (Some exception, w) \<Rightarrow> (Inl exception, w))\<close>

definition async_start :: "session \<Rightarrow> entity \<Rightarrow> world \<Rightarrow> (exn + unit) \<times> world" where
  \<open>async_start session self w =
    (let command_type = ''actions'';
         payload = ''{"data": {"type": "ResumeSchedule"}}''
     in except_ClientResponseError
          (session_action session (mower_id self) payload command_type w))\<close>

definition async_pause :: "session \<Rightarrow> entity \<Rightarrow> world \<Rightarrow> (exn + unit) \<times> world" where
  \<open>async_pause session self w =
    (let command_type = ''actions'';
         payload = ''{"data": {"type": "Pause"}}''
     in except_ClientResponseError
          (session_action session (mower_id self) payload command_type w))\<close>

definition async_stop :: "session \<Rightarrow> entity \<Rightarrow> world \<Rightarrow> (exn + unit) \<times> world" where
  \<open>async_stop session self w =
    (let command_type = ''actions'';
         payload = ''{"data": {"type": "ParkUntilNextSchedule"}}''
     in except_ClientResponseError
          (session_action session (mower_id self) payload command_type w))\<close>

definition async_return_to_base ::
  "session \<Rightarrow> entity \<Rightarrow> world \<Rightarrow> (exn + unit) \<times> world" where
  \<open>async_return_to_base session self w =
    (let command_type = ''actions'';
         payload = ''{"data": {"type": "ParkUntilFurtherNotice"}}''
     in except_ClientResponseError
          (session_action session (mower_id self) payload command_type w))\<close>

definition async_park_and_start ::
  "session \<Rightarrow> entity \<Rightarrow> string \<Rightarrow> int \<Rightarrow> world \<Rightarrow> (exn + unit) \<times> world" where
  "async_park_and_start session self command duration w =
    (let command_type = ''actions'';
         string = JObj [(''data'', JObj [(''type'', JStr command),
                                         (''attributes'', JObj [(''duration'', JInt duration)])])];
         payload = json_dumps string
     in except_ClientResponseError
          (session_action session (mower_id self) payload command_type w))"

text \<open>
  The calendar service hands over \<^verbatim>\<open>start\<close> and \<^verbatim>\<open>end\<close> as times of day, of which
  the method reads \<^verbatim>\<open>hour\<close> and \<^verbatim>\<open>minute\<close>.
\<close>

record time_of_day =
  hour :: int
  minute :: int

definition async_custom_calendar_command ::
  "session \<Rightarrow> entity \<Rightarrow> time_of_day \<Rightarrow> time_of_day \<Rightarrow> bool \<Rightarrow> bool \<Rightarrow> bool \<Rightarrow> bool \<Rightarrow> bool
    \<Rightarrow> bool \<Rightarrow> bool \<Rightarrow> world \<Rightarrow> (exn + unit) \<times> world" where
  "async_custom_calendar_command session self start end monday tuesday wednesday thursday
      friday saturday sunday w =
    (let start_in_minutes = hour start * 60 + minute start;
         w1 = LOGGER_debug (''start in minutes int: '' @ str_int start_in_minutes) w;
         end_in_minutes = hour end * 60 + minute end;
         w2 = LOGGER_debug (''end in minutes: '' @ str_int end_in_minutes) w1;
         duration = end_in_minutes - start_in_minutes
     in
     if duration \<le> 0
     then (Inl (ConditionErrorMessage ''<'' ''StartingTime must be before EndingTime''), w2)
     else
       (let command_type = ''calendar'';
            string =
              JObj [(''data'',
                     JObj [(''type'', JStr ''calendar''),
                           (''attributes'',
                            JObj [(''tasks'',
                                   JArr [JObj [(''start'', JInt start_in_minutes),
                                               (''duration'', JInt duration),
                                               (''monday'', JBool monday),
                                               (''tuesday'', JBool tuesday),
                                               (''wednesday'', JBool wednesday),
                                               (''thursday'', JBool thursday),
                                               (''friday'', JBool friday),
                                               (''saturday'', JBool saturday),
                                               (''sunday'', JBool sunday)]])])])];
            payload = json_dumps string
        in except_ClientResponseError
             (session_action session (mower_id self) payload command_type w2)))"

definition async_custom_command ::
  "session \<Rightarrow> entity \<Rightarrow> string \<Rightarrow> string \<Rightarrow> world \<Rightarrow> (exn + unit) \<times> world" where
  "async_custom_command session self command_type json_string w =
    except_ClientResponseError
      (session_action session (mower_id self) json_string command_type w)"

section \<open>The state mapper of the specification\<close>

text \<open>
  Section 4.1 of the specification words the state mapper as an ordered list of rules, each
  a condition on the vendor state and activity with the device state it yields; the first
  rule whose condition holds decides. \<open>state_mapper_rules\<close> is that list, rules 1 to 6, and
  \<open>first_match\<close> runs such a list.
\<close>

type_synonym mapper_rule = "(string \<Rightarrow> string \<Rightarrow> bool) \<times> vacuum_state"

definition state_mapper_rules :: "mapper_rule list" where
  "state_mapper_rules =
    [(\<lambda>s a. s = ''PAUSED'', STATE_PAUSED),
     (\<lambda>s a. s \<in> {''WAIT_UPDATING'', ''WAIT_POWER_UP''}, STATE_IDLE),
     (\<lambda>s a. s = ''RESTRICTED'' \<or> a \<in> {''PARKED_IN_CS'', ''CHARGING''}, STATE_DOCKED),
     (\<lambda>s a. a \<in> {''MOWING'', ''LEAVING''}, STATE_CLEANING),
     (\<lambda>s a. a = ''GOING_HOME'', STATE_RETURNING),
     (\<lambda>s a. s \<in> {''FATAL_ERROR'', ''ERROR'', ''ERROR_AT_POWER_UP'', ''NOT_APPLICABLE'',
                 ''UNKNOWN'', ''STOPPED'', ''OFF''}
             \<or> a \<in> {''STOPPED_IN_GARDEN'', ''UNKNOWN'', ''NOT_APPLICABLE''}, STATE_ERROR)]"

fun first_match :: "mapper_rule list \<Rightarrow> string \<Rightarrow> string \<Rightarrow> vacuum_state option" where
  "first_match [] s a = None"
| "first_match ((p, d) # rs) s a = (if p s a then Some d else first_match rs s a)"

text \<open>
  The vocabularies of section 3 of the specification: the values the vendor gives
  \<^verbatim>\<open>mower.state\<close> and \<^verbatim>\<open>mower.activity\<close>.
\<close>

definition state_vocabulary :: "string list" where
  "state_vocabulary =
    [''PAUSED'', ''WAIT_UPDATING'', ''WAIT_POWER_UP'', ''RESTRICTED'', ''IN_OPERATION'',
     ''OFF'', ''STOPPED'', ''ERROR'', ''FATAL_ERROR'', ''ERROR_AT_POWER_UP'',
     ''NOT_APPLICABLE'', ''UNKNOWN'']"

definition activity_vocabulary :: "string list" where
  "activity_vocabulary =
    [''PARKED_IN_CS'', ''CHARGING'', ''MOWING'', ''LEAVING'', ''GOING_HOME'',
     ''STOPPED_IN_GARDEN'', ''UNKNOWN'', ''NOT_APPLICABLE'']"

text \<open>A snapshot with the given vendor state and activity, for the examples.\<close>

definition snapshot :: "string \<Rightarrow> string \<Rightarrow> int \<Rightarrow> int \<Rightarrow> string \<Rightarrow> entity" where
  "snapshot s a code next_start reason =
    \<lparr>mower_id = ''c7233734-b219-4287-a173-08e3643f89f0'',
     attributes =
       \<lparr>mower = \<lparr>mower_state = s, activity = a, errorCode = code,
                  errorCodeTimestamp = 1623045600000, mode = ''MAIN_AREA''\<rparr>,
        battery = \<lparr>batteryPercent = 57\<rparr>,
        planner = \<lparr>nextStartTimestamp = next_start, restrictedReason = reason,
                    override = \<lparr>override_action = ''NOT_ACTIVE''\<rparr>\<rparr>\<rparr>\<rparr>"

section \<open>The specification's tables, and values for the examples\<close>



text \<open>
  The calendar request of section 4.5: one task entry with the start in minutes since
  midnight, the duration and the seven weekday flags.
\<close>

definition calendar_payload ::
  "int \<Rightarrow> int \<Rightarrow> bool \<Rightarrow> bool \<Rightarrow> bool \<Rightarrow> bool \<Rightarrow> bool \<Rightarrow> bool \<Rightarrow> bool \<Rightarrow> json" where
  "calendar_payload start_in_minutes duration monday tuesday wednesday thursday friday
      saturday sunday =
    JObj [(''data'',
           JObj [(''type'', JStr ''calendar''),
                 (''attributes'',
                  JObj [(''tasks'',
                         JArr [JObj [(''start'', JInt start_in_minutes),
                                     (''duration'', JInt duration),
                                     (''monday'', JBool monday),
                                     (''tuesday'', JBool tuesday),
                                     (''wednesday'', JBool wednesday),
                                     (''thursday'', JBool thursday),
                                     (''friday'', JBool friday),
                                     (''saturday'', JBool saturday),
                                     (''sunday'', JBool sunday)]])])])]"

text \<open>
  The outcome of a command whose one call \<open>req\<close> to the session failed and was swallowed:
  the method returns normally, the call is on record once, and the log has gained the
  method's debug records \<open>debug\<close> and then the error record; nothing else has changed.
\<close>

definition swallowed ::
  "world \<Rightarrow> request \<Rightarrow> (log_level \<times> string) list \<Rightarrow> (exn + unit) \<times> world" where
  \<open>swallowed w req debug =
    (Inr (),
     w\<lparr>requests := requests w @ [req],
       logged := logged w @ debug @ [(ERROR, ''Command couldn't be sent to the command que'')]\<rparr>)\<close>

text \<open>
  Values for the examples: a small error-code table (code 999 is not in it), a snapshot with
  another battery percentage, a world in which nothing has happened yet, a session whose
  every call raises \<^verbatim>\<open>ClientResponseError\<close> and one whose every call returns.
\<close>

definition example_ERRORCODES :: "int \<rightharpoonup> string" where
  "example_ERRORCODES =
    map_of [(0, ''Unexpected error''), (1, ''Outside working area''), (2, ''No loop signal'')]"

definition with_battery :: "int \<Rightarrow> entity \<Rightarrow> entity" where
  "with_battery b self =
    self\<lparr>attributes := (attributes self)\<lparr>battery := \<lparr>batteryPercent = b\<rparr>\<rparr>\<rparr>"

definition quiet_world :: world where
  "quiet_world = \<lparr>requests = [], logged = []\<rparr>"

definition failing_session :: session where
  "failing_session = (\<lambda>before req. Some ClientResponseError)"

definition accepting_session :: session where
  "accepting_session = (\<lambda>before req. None)"

section \<open>Properties of the state mapper\<close>

lemma state_eq:
  "state self =
    (let s = mower_state (mower (attributes self)); a = activity (mower (attributes self)) in
     if s = ''PAUSED'' then Some STATE_PAUSED
     else if s = ''WAIT_UPDATING'' \<or> s = ''WAIT_POWER_UP'' then Some STATE_IDLE
     else if s = ''RESTRICTED'' \<or> a = ''PARKED_IN_CS'' \<or> a = ''CHARGING'' then Some STATE_DOCKED
     else if a = ''MOWING'' \<or> a = ''LEAVING'' then Some STATE_CLEANING
     else if a = ''GOING_HOME'' then Some STATE_RETURNING
     else if s = ''FATAL_ERROR'' \<or> s = ''ERROR'' \<or> s = ''ERROR_AT_POWER_UP''
         \<or> s = ''NOT_APPLICABLE'' \<or> s = ''UNKNOWN'' \<or> s = ''STOPPED'' \<or> s = ''OFF''
         \<or> a = ''STOPPED_IN_GARDEN'' \<or> a = ''UNKNOWN'' \<or> a = ''NOT_APPLICABLE''
       then Some STATE_ERROR
     else None)"
  unfolding state_def get_mower_attributes_def Let_def by simp

text \<open>
  Claim C1. The state that the entity derives from a snapshot is the result of the ordered
  rule list of section 4.1 under first-match-wins: PAUSED gives Paused whatever the
  activity; otherwise WAIT_UPDATING and WAIT_POWER_UP give Idle; otherwise RESTRICTED, or an
  activity of PARKED_IN_CS or CHARGING, gives Docked, so RESTRICTED gives Docked also when
  the activity is MOWING; then MOWING and LEAVING give Cleaning, GOING_HOME gives Returning,
  and the error states and the activities STOPPED_IN_GARDEN, UNKNOWN, NOT_APPLICABLE give
  Error.
\<close>

theorem state_first_match:
  "state self =
     first_match state_mapper_rules
       (mower_state (mower (get_mower_attributes self)))
       (activity (mower (get_mower_attributes self)))
   \<and> (mower_state (mower (get_mower_attributes self)) = ''PAUSED''
        \<longrightarrow> state self = Some STATE_PAUSED)
   \<and> (mower_state (mower (get_mower_attributes self)) = ''RESTRICTED''
        \<longrightarrow> state self = Some STATE_DOCKED)"
  unfolding state_eq state_mapper_rules_def get_mower_attributes_def Let_def
  by simp

theorem state_first_match_witness:
  "state (snapshot ''RESTRICTED'' ''MOWING'' 0 0 ''WEEK_SCHEDULE'') = Some STATE_DOCKED
   \<and> state (snapshot ''PAUSED'' ''MOWING'' 0 0 ''NOT_APPLICABLE'') = Some STATE_PAUSED
   \<and> first_match state_mapper_rules ''RESTRICTED'' ''MOWING'' = Some STATE_DOCKED"
  using state_first_match [of "snapshot ''RESTRICTED'' ''MOWING'' 0 0 ''WEEK_SCHEDULE''"]
    state_first_match [of "snapshot ''PAUSED'' ''MOWING'' 0 0 ''NOT_APPLICABLE''"]
  by (simp add: snapshot_def get_mower_attributes_def state_mapper_rules_def)

text \<open>
  Claim C5. The state mapping is total on the snapshots of section 3: when the vendor state
  and the activity are values of the enumerated vocabularies, the entity derives exactly one
  device state, and the rule list never ends without a match: where none of the rules 1 to
  5 applies, the last rule does and the state is Error.
\<close>

theorem state_total:
  assumes "mower_state (mower (get_mower_attributes self)) \<in> set state_vocabulary"
    and "activity (mower (get_mower_attributes self)) \<in> set activity_vocabulary"
  shows "(\<exists>!d. state self = Some d)
         \<and> first_match state_mapper_rules
              (mower_state (mower (get_mower_attributes self)))
              (activity (mower (get_mower_attributes self))) \<noteq> None
         \<and> (first_match (butlast state_mapper_rules)
              (mower_state (mower (get_mower_attributes self)))
              (activity (mower (get_mower_attributes self))) = None
            \<longrightarrow> state self = Some STATE_ERROR)"
proof -
  from assms have "\<exists>!d. state self = Some d"
    unfolding state_eq state_vocabulary_def activity_vocabulary_def get_mower_attributes_def
      Let_def
    by auto
  moreover from assms have "first_match state_mapper_rules
              (mower_state (mower (get_mower_attributes self)))
              (activity (mower (get_mower_attributes self))) \<noteq> None"
    unfolding state_mapper_rules_def state_vocabulary_def activity_vocabulary_def
      get_mower_attributes_def
    by auto
  moreover from assms have "first_match (butlast state_mapper_rules)
              (mower_state (mower (get_mower_attributes self)))
              (activity (mower (get_mower_attributes self))) = None
            \<longrightarrow> state self = Some STATE_ERROR"
    unfolding state_eq state_mapper_rules_def state_vocabulary_def activity_vocabulary_def
      get_mower_attributes_def Let_def
    by auto
  ultimately show ?thesis by simp
qed

theorem state_total_witness:
  "mower_state (mower (get_mower_attributes
      (snapshot ''IN_OPERATION'' ''STOPPED_IN_GARDEN'' 0 0 ''NOT_APPLICABLE'')))
     \<in> set state_vocabulary
   \<and> activity (mower (get_mower_attributes
      (snapshot ''IN_OPERATION'' ''STOPPED_IN_GARDEN'' 0 0 ''NOT_APPLICABLE'')))
     \<in> set activity_vocabulary
   \<and> (\<exists>!d. state (snapshot ''IN_OPERATION'' ''STOPPED_IN_GARDEN'' 0 0 ''NOT_APPLICABLE'')
              = Some d)
   \<and> state (snapshot ''IN_OPERATION'' ''STOPPED_IN_GARDEN'' 0 0 ''NOT_APPLICABLE'')
     = Some STATE_ERROR"
proof -
  let ?e = "snapshot ''IN_OPERATION'' ''STOPPED_IN_GARDEN'' 0 0 ''NOT_APPLICABLE''"
  have s: "mower_state (mower (get_mower_attributes ?e)) \<in> set state_vocabulary"
    by (simp add: snapshot_def get_mower_attributes_def state_vocabulary_def)
  have a: "activity (mower (get_mower_attributes ?e)) \<in> set activity_vocabulary"
    by (simp add: snapshot_def get_mower_attributes_def activity_vocabulary_def)
  have v: "state ?e = Some STATE_ERROR"
    by (simp add: state_eq snapshot_def)
  from s a state_total [OF s a] v show ?thesis by blast
qed

text \<open>
  The vocabulary matters: for an activity that the vendor's list does not have, under the
  state IN\_OPERATION, no rule matches and the property yields \<^verbatim>\<open>None\<close>.
\<close>

lemma state_unlisted_activity:
  "state (snapshot ''IN_OPERATION'' ''FOO'' 0 0 ''NOT_APPLICABLE'') = None"
  by (simp add: state_eq snapshot_def)

section \<open>Properties of the error reporter and the battery level\<close>

text \<open>
  Claim C8. When the derived state is Error, the property \<^verbatim>\<open>error\<close> is the table's
  message for the snapshot's error code, and it is \<^verbatim>\<open>None\<close>, not a failure, when the
  table lacks the code; when the derived state is not Error it is the empty string.
\<close>

theorem error_reporter:
  "(state self = Some STATE_ERROR \<longrightarrow>
      error ERRORCODES self = ERRORCODES (errorCode (mower (get_mower_attributes self))))
   \<and> (state self = Some STATE_ERROR
        \<and> ERRORCODES (errorCode (mower (get_mower_attributes self))) = None \<longrightarrow>
      error ERRORCODES self = None)
   \<and> (state self \<noteq> Some STATE_ERROR \<longrightarrow> error ERRORCODES self = Some '''')"
  by (simp add: error_def Let_def)

theorem error_reporter_witness:
  "error example_ERRORCODES (snapshot ''ERROR'' ''STOPPED_IN_GARDEN'' 1 0 ''NOT_APPLICABLE'')
     = Some ''Outside working area''
   \<and> error example_ERRORCODES (snapshot ''ERROR'' ''STOPPED_IN_GARDEN'' 999 0 ''NOT_APPLICABLE'')
     = None
   \<and> error example_ERRORCODES (snapshot ''IN_OPERATION'' ''MOWING'' 0 0 ''NOT_APPLICABLE'')
     = Some ''''"
proof -
  have 1: "state (snapshot ''ERROR'' ''STOPPED_IN_GARDEN'' 1 0 ''NOT_APPLICABLE'') = Some STATE_ERROR"
    by (simp add: state_eq snapshot_def)
  have 2: "state (snapshot ''ERROR'' ''STOPPED_IN_GARDEN'' 999 0 ''NOT_APPLICABLE'') = Some STATE_ERROR"
    by (simp add: state_eq snapshot_def)
  have 3: "state (snapshot ''IN_OPERATION'' ''MOWING'' 0 0 ''NOT_APPLICABLE'') \<noteq> Some STATE_ERROR"
    by (simp add: state_eq snapshot_def)
  show ?thesis
    using 1 2 3
      error_reporter [of "snapshot ''ERROR'' ''STOPPED_IN_GARDEN'' 1 0 ''NOT_APPLICABLE''"
        example_ERRORCODES]
      error_reporter [of "snapshot ''ERROR'' ''STOPPED_IN_GARDEN'' 999 0 ''NOT_APPLICABLE''"
        example_ERRORCODES]
      error_reporter [of "snapshot ''IN_OPERATION'' ''MOWING'' 0 0 ''NOT_APPLICABLE''"
        example_ERRORCODES]
    by (simp add: snapshot_def get_mower_attributes_def example_ERRORCODES_def)
qed

text \<open>
  Claim C9. The battery level is the snapshot's battery percentage clamped to the range
  from 0 to 100: -5 gives 0, 150 gives 100 and 57 gives 57.
\<close>

theorem battery_level_clamp:
  "battery_level self =
     (if batteryPercent (battery (get_mower_attributes self)) < 0 then 0
      else if 100 < batteryPercent (battery (get_mower_attributes self)) then 100
      else batteryPercent (battery (get_mower_attributes self)))
   \<and> 0 \<le> battery_level self \<and> battery_level self \<le> 100
   \<and> battery_level (with_battery (- 5) self) = 0
   \<and> battery_level (with_battery 150 self) = 100
   \<and> battery_level (with_battery 57 self) = 57"
  by (simp add: battery_level_def with_battery_def get_mower_attributes_def)

section \<open>Properties of the status text and the attributes\<close>













section \<open>Properties of the command methods\<close>

text \<open>
  What the closing block of every method does with a call: the call goes on record, a
  call that raises \<^verbatim>\<open>ClientResponseError\<close> is swallowed, and any other exception of
  the call reaches the caller.
\<close>

lemma forward_requests:
  "requests (snd (except_ClientResponseError (session_action session mid payload command_type w)))
     = requests w @ [(mid, payload, command_type)]"
  by (simp add: except_ClientResponseError_def session_action_def LOGGER_error_def
      split: option.split exn.split)

lemma forward_fails:
  assumes "session (requests w) (mid, payload, command_type) = Some ClientResponseError"
  shows "except_ClientResponseError (session_action session mid payload command_type w)
     = swallowed w (mid, payload, command_type) []"
  using assms
  by (simp add: except_ClientResponseError_def session_action_def LOGGER_error_def
      swallowed_def)

lemma forward_other_exception:
  assumes "session (requests w) (mid, payload, command_type) = Some (OtherException msg)"
  shows "fst (except_ClientResponseError (session_action session mid payload command_type w))
     = Inl (OtherException msg)"
  using assms
  by (simp add: except_ClientResponseError_def session_action_def)

text \<open>
  Claim C7. The custom command makes one call to the session, with exactly the payload
  string and the command type it was given.
\<close>

theorem custom_command_forwards:
  "requests (snd (async_custom_command session self command_type json_string w))
     = requests w @ [(mower_id self, json_string, command_type)]"
  unfolding async_custom_command_def by (rule forward_requests)

text \<open>
  Claim C3. The calendar command turns start and end into minutes since midnight and
  takes their difference as the duration. With a duration of 0 or less it raises
  \<^verbatim>\<open>ConditionErrorMessage\<close> and no call has gone to the session; with a positive
  duration it makes one call of type calendar whose payload has a single task entry with
  the start, the duration and the seven weekday flags. From 08:00 to 08:30 the task has
  start 480 and duration 30; from 08:00 to 07:00 the command raises.
\<close>

theorem calendar_forwarding:
  "(let start_in_minutes = hour start * 60 + minute start;
        duration = (hour finish * 60 + minute finish) - start_in_minutes;
        r = async_custom_calendar_command session self start finish monday tuesday wednesday
              thursday friday saturday sunday w
    in (duration \<le> 0 \<longrightarrow>
          fst r = Inl (ConditionErrorMessage ''<'' ''StartingTime must be before EndingTime'')
          \<and> requests (snd r) = requests w)
       \<and> (0 < duration \<longrightarrow>
            requests (snd r) = requests w @
              [(mower_id self,
                json_dumps (calendar_payload start_in_minutes duration monday tuesday
                              wednesday thursday friday saturday sunday),
                ''calendar'')]))"
  unfolding Let_def async_custom_calendar_command_def
  by (simp add: forward_requests LOGGER_debug_def calendar_payload_def
      del: json_dumps.simps)

theorem calendar_forwarding_witness:
  \<open>async_custom_calendar_command accepting_session
       (snapshot ''IN_OPERATION'' ''MOWING'' 0 0 ''NOT_APPLICABLE'')
       \<lparr>hour = 8, minute = 0\<rparr> \<lparr>hour = 7, minute = 0\<rparr>
       True True True True True False False quiet_world
     = (Inl (ConditionErrorMessage ''<'' ''StartingTime must be before EndingTime''),
        \<lparr>requests = [],
         logged = [(DEBUG, ''start in minutes int: 480''), (DEBUG, ''end in minutes: 420'')]\<rparr>)
   \<and> requests (snd (async_custom_calendar_command accepting_session
       (snapshot ''IN_OPERATION'' ''MOWING'' 0 0 ''NOT_APPLICABLE'')
       \<lparr>hour = 8, minute = 0\<rparr> \<lparr>hour = 8, minute = 30\<rparr>
       True True True True True False False quiet_world))
     = [(''c7233734-b219-4287-a173-08e3643f89f0'',
         ''{"data": {"type": "calendar", "attributes": {"tasks": [{"start": 480, "duration": 30, "monday": true, "tuesday": true, "wednesday": true, "thursday": true, "friday": true, "saturday": false, "sunday": false}]}}}'',
         ''calendar'')]\<close>
proof -
  let ?e = "snapshot ''IN_OPERATION'' ''MOWING'' 0 0 ''NOT_APPLICABLE''"
  have early: "async_custom_calendar_command accepting_session ?e
       \<lparr>hour = 8, minute = 0\<rparr> \<lparr>hour = 7, minute = 0\<rparr>
       True True True True True False False quiet_world
     = (Inl (ConditionErrorMessage ''<'' ''StartingTime must be before EndingTime''),
        \<lparr>requests = [],
         logged = [(DEBUG, ''start in minutes int: 480''), (DEBUG, ''end in minutes: 420'')]\<rparr>)"
    using calendar_forwarding [where start = "\<lparr>hour = 8, minute = 0\<rparr>"
        and finish = "\<lparr>hour = 7, minute = 0\<rparr>" and session = accepting_session
        and self = ?e and monday = True and tuesday = True and wednesday = True
        and thursday = True and friday = True and saturday = False and sunday = False
        and w = quiet_world]
    by (simp add: async_custom_calendar_command_def Let_def LOGGER_debug_def quiet_world_def
        str_int_def str_nat.simps digit_char_def)
  have rendered: \<open>json_dumps (calendar_payload 480 30 True True True True True False False)
     = ''{"data": {"type": "calendar", "attributes": {"tasks": [{"start": 480, "duration": 30, "monday": true, "tuesday": true, "wednesday": true, "thursday": true, "friday": true, "saturday": false, "sunday": false}]}}}''\<close>
    by (simp add: calendar_payload_def str_int_def str_nat.simps digit_char_def escape_char_def)
  have sent: "requests (snd (async_custom_calendar_command accepting_session ?e
       \<lparr>hour = 8, minute = 0\<rparr> \<lparr>hour = 8, minute = 30\<rparr>
       True True True True True False False quiet_world))
     = [(''c7233734-b219-4287-a173-08e3643f89f0'',
         json_dumps (calendar_payload 480 30 True True True True True False False),
         ''calendar'')]"
    using calendar_forwarding [where start = "\<lparr>hour = 8, minute = 0\<rparr>"
        and finish = "\<lparr>hour = 8, minute = 30\<rparr>" and session = accepting_session
        and self = ?e and monday = True and tuesday = True and wednesday = True
        and thursday = True and friday = True and saturday = False and sunday = False
        and w = quiet_world]
    by (simp add: Let_def quiet_world_def snapshot_def del: json_dumps.simps)
  from early sent rendered show ?thesis by simp
qed

text \<open>
  Claim C4. For each of the seven command methods: when the call it makes to the session
  raises \<^verbatim>\<open>ClientResponseError\<close>, the method returns normally, the call was made
  once, and the only other effect is the error record in the log (after the two debug
  records of the calendar command).
\<close>

theorem request_error_swallowed:
  \<open>(session (requests w) (mower_id self, ''{"data": {"type": "ResumeSchedule"}}'', ''actions'')
       = Some ClientResponseError \<longrightarrow>
     async_start session self w
       = swallowed w (mower_id self, ''{"data": {"type": "ResumeSchedule"}}'', ''actions'') [])
   \<and> (session (requests w) (mower_id self, ''{"data": {"type": "Pause"}}'', ''actions'')
       = Some ClientResponseError \<longrightarrow>
     async_pause session self w
       = swallowed w (mower_id self, ''{"data": {"type": "Pause"}}'', ''actions'') [])
   \<and> (session (requests w)
         (mower_id self, ''{"data": {"type": "ParkUntilNextSchedule"}}'', ''actions'')
       = Some ClientResponseError \<longrightarrow>
     async_stop session self w
       = swallowed w
           (mower_id self, ''{"data": {"type": "ParkUntilNextSchedule"}}'', ''actions'') [])
   \<and> (session (requests w)
         (mower_id self, ''{"data": {"type": "ParkUntilFurtherNotice"}}'', ''actions'')
       = Some ClientResponseError \<longrightarrow>
     async_return_to_base session self w
       = swallowed w
           (mower_id self, ''{"data": {"type": "ParkUntilFurtherNotice"}}'', ''actions'') [])
   \<and> (session (requests w)
         (mower_id self,
          json_dumps (JObj [(''data'', JObj [(''type'', JStr command),
                              (''attributes'', JObj [(''duration'', JInt duration)])])]),
          ''actions'')
       = Some ClientResponseError \<longrightarrow>
     async_park_and_start session self command duration w
       = swallowed w
           (mower_id self,
            json_dumps (JObj [(''data'', JObj [(''type'', JStr command),
                                (''attributes'', JObj [(''duration'', JInt duration)])])]),
            ''actions'') [])
   \<and> (0 < (hour finish * 60 + minute finish) - (hour start * 60 + minute start)
        \<and> session (requests w)
         (mower_id self,
          json_dumps (calendar_payload (hour start * 60 + minute start)
                        ((hour finish * 60 + minute finish) - (hour start * 60 + minute start))
                        monday tuesday wednesday thursday friday saturday sunday),
          ''calendar'')
       = Some ClientResponseError \<longrightarrow>
     async_custom_calendar_command session self start finish monday tuesday wednesday thursday
         friday saturday sunday w
       = swallowed w
           (mower_id self,
            json_dumps (calendar_payload (hour start * 60 + minute start)
                          ((hour finish * 60 + minute finish) - (hour start * 60 + minute start))
                          monday tuesday wednesday thursday friday saturday sunday),
            ''calendar'')
           [(DEBUG, ''start in minutes int: '' @ str_int (hour start * 60 + minute start)),
            (DEBUG, ''end in minutes: '' @ str_int (hour finish * 60 + minute finish))])
   \<and> (session (requests w) (mower_id self, json_string, command_type)
       = Some ClientResponseError \<longrightarrow>
     async_custom_command session self command_type json_string w
       = swallowed w (mower_id self, json_string, command_type) [])\<close>
proof -
  have calendar: "async_custom_calendar_command session self start finish monday tuesday
         wednesday thursday friday saturday sunday w
       = swallowed w
           (mower_id self,
            json_dumps (calendar_payload (hour start * 60 + minute start)
                          ((hour finish * 60 + minute finish) - (hour start * 60 + minute start))
                          monday tuesday wednesday thursday friday saturday sunday),
            ''calendar'')
           [(DEBUG, ''start in minutes int: '' @ str_int (hour start * 60 + minute start)),
            (DEBUG, ''end in minutes: '' @ str_int (hour finish * 60 + minute finish))]"
    if pos: "0 < (hour finish * 60 + minute finish) - (hour start * 60 + minute start)"
      and fails: "session (requests w)
         (mower_id self,
          json_dumps (calendar_payload (hour start * 60 + minute start)
                        ((hour finish * 60 + minute finish) - (hour start * 60 + minute start))
                        monday tuesday wednesday thursday friday saturday sunday),
          ''calendar'')
       = Some ClientResponseError"
  proof -
    let ?w2 = "LOGGER_debug (''end in minutes: '' @ str_int (hour finish * 60 + minute finish))
                 (LOGGER_debug
                   (''start in minutes int: '' @ str_int (hour start * 60 + minute start)) w)"
    have r: "requests ?w2 = requests w"
      by (simp add: LOGGER_debug_def)
    let ?payload = "json_dumps (calendar_payload (hour start * 60 + minute start)
                        ((hour finish * 60 + minute finish) - (hour start * 60 + minute start))
                        monday tuesday wednesday thursday friday saturday sunday)"
    have "except_ClientResponseError
            (session_action session (mower_id self) ?payload ''calendar'' ?w2)
          = swallowed ?w2 (mower_id self, ?payload, ''calendar'') []"
      by (rule forward_fails) (simp add: LOGGER_debug_def fails)
    with pos show ?thesis
      unfolding async_custom_calendar_command_def Let_def calendar_payload_def
      by (simp add: swallowed_def LOGGER_debug_def del: json_dumps.simps)
  qed
  show ?thesis
    unfolding async_start_def async_pause_def async_stop_def async_return_to_base_def
      async_park_and_start_def async_custom_command_def Let_def
    using forward_fails calendar by blast
qed

theorem request_error_swallowed_witness:
  \<open>async_start failing_session (snapshot ''IN_OPERATION'' ''MOWING'' 0 0 ''NOT_APPLICABLE'')
       quiet_world
     = (Inr (),
        \<lparr>requests = [(''c7233734-b219-4287-a173-08e3643f89f0'',
                      ''{"data": {"type": "ResumeSchedule"}}'', ''actions'')],
         logged = [(ERROR, ''Command couldn't be sent to the command que'')]\<rparr>)
   \<and> async_pause failing_session (snapshot ''IN_OPERATION'' ''MOWING'' 0 0 ''NOT_APPLICABLE'')
       quiet_world
     = (Inr (),
        \<lparr>requests = [(''c7233734-b219-4287-a173-08e3643f89f0'',
                      ''{"data": {"type": "Pause"}}'', ''actions'')],
         logged = [(ERROR, ''Command couldn't be sent to the command que'')]\<rparr>)
   \<and> async_stop failing_session (snapshot ''IN_OPERATION'' ''MOWING'' 0 0 ''NOT_APPLICABLE'')
       quiet_world
     = (Inr (),
        \<lparr>requests = [(''c7233734-b219-4287-a173-08e3643f89f0'',
                      ''{"data": {"type": "ParkUntilNextSchedule"}}'', ''actions'')],
         logged = [(ERROR, ''Command couldn't be sent to the command que'')]\<rparr>)
   \<and> async_return_to_base failing_session
       (snapshot ''IN_OPERATION'' ''MOWING'' 0 0 ''NOT_APPLICABLE'') quiet_world
     = (Inr (),
        \<lparr>requests = [(''c7233734-b219-4287-a173-08e3643f89f0'',
                      ''{"data": {"type": "ParkUntilFurtherNotice"}}'', ''actions'')],
         logged = [(ERROR, ''Command couldn't be sent to the command que'')]\<rparr>)
   \<and> async_park_and_start failing_session
       (snapshot ''IN_OPERATION'' ''MOWING'' 0 0 ''NOT_APPLICABLE'') ''Park'' 30 quiet_world
     = (Inr (),
        \<lparr>requests = [(''c7233734-b219-4287-a173-08e3643f89f0'',
                      ''{"data": {"type": "Park", "attributes": {"duration": 30}}}'',
                      ''actions'')],
         logged = [(ERROR, ''Command couldn't be sent to the command que'')]\<rparr>)
   \<and> async_custom_calendar_command failing_session
       (snapshot ''IN_OPERATION'' ''MOWING'' 0 0 ''NOT_APPLICABLE'')
       \<lparr>hour = 8, minute = 0\<rparr> \<lparr>hour = 8, minute = 30\<rparr>
       True True True True True False False quiet_world
     = (Inr (),
        \<lparr>requests = [(''c7233734-b219-4287-a173-08e3643f89f0'',
                      ''{"data": {"type": "calendar", "attributes": {"tasks": [{"start": 480, "duration": 30, "monday": true, "tuesday": true, "wednesday": true, "thursday": true, "friday": true, "saturday": false, "sunday": false}]}}}'',
                      ''calendar'')],
         logged = [(DEBUG, ''start in minutes int: 480''), (DEBUG, ''end in minutes: 510''),
                   (ERROR, ''Command couldn't be sent to the command que'')]\<rparr>)
   \<and> async_custom_command failing_session
       (snapshot ''IN_OPERATION'' ''MOWING'' 0 0 ''NOT_APPLICABLE'')
       ''actions'' ''{"data": {"type": "Pause"}}'' quiet_world
     = (Inr (),
        \<lparr>requests = [(''c7233734-b219-4287-a173-08e3643f89f0'',
                      ''{"data": {"type": "Pause"}}'', ''actions'')],
         logged = [(ERROR, ''Command couldn't be sent to the command que'')]\<rparr>)\<close>
  using request_error_swallowed [where session = failing_session and w = quiet_world
      and self = "snapshot ''IN_OPERATION'' ''MOWING'' 0 0 ''NOT_APPLICABLE''"
      and command = "''Park''" and duration = 30
      and start = "\<lparr>hour = 8, minute = 0\<rparr>" and finish = "\<lparr>hour = 8, minute = 30\<rparr>"
      and monday = True and tuesday = True and wednesday = True and thursday = True
      and friday = True and saturday = False and sunday = False
      and command_type = "''actions''" and json_string = \<open>''{"data": {"type": "Pause"}}''\<close>]
  by (simp add: failing_session_def swallowed_def quiet_world_def snapshot_def
      calendar_payload_def str_int_def str_nat.simps digit_char_def escape_char_def)

end
